theory Spec2Isabelle
  imports Main
begin

section \<open>The resource server of scripts/evm-example/server-express.ts\<close>

text \<open>
  The script mounts two paid routes. The inner action of \<^verbatim>\<open>/weather\<close> answers a
  constant; the inner action of \<^verbatim>\<open>/tee-demo\<close> calls the Redpill chat endpoint, then
  the Redpill signature endpoint with the id the chat call returned, and answers with
  both results. The payment check is the middleware of another package and is kept
  outside: a handler below is what runs once the middleware has let a request through.

  Effects are written out. A run yields the list of events it caused, in order (every
  log line and every outbound \<^verbatim>\<open>fetch\<close>), together with its result. A thrown value is
  the left summand of a sum.
\<close>

subsection \<open>Values\<close>

text \<open>
  What a \<^verbatim>\<open>catch\<close> clause can receive: an instance of \<^verbatim>\<open>Error\<close> with its message, or
  any other value.
\<close>

datatype js_thrown = JsError string | NonError

text \<open>
  The JSON text a response carries. A property whose value is \<^verbatim>\<open>undefined\<close> is left
  out by the serialiser, so an object is built from optional members by \<open>members\<close>.
\<close>

datatype json =
    JNull
  | JBool bool
  | JNum int
  | JStr string
  | JArr "json list"
  | JObj "(string \<times> json) list"

fun members :: "(string \<times> json option) list \<Rightarrow> (string \<times> json) list" where
  "members [] = []"
| "members ((k, None) # kvs) = members kvs"
| "members ((k, Some v) # kvs) = (k, v) # members kvs"

fun jget :: "json \<Rightarrow> string list \<Rightarrow> json option" where
  "jget v [] = Some v"
| "jget (JObj kvs) (k # ks) = (case map_of kvs k of None \<Rightarrow> None | Some v \<Rightarrow> jget v ks)"
| "jget v (k # ks) = None"

text \<open>Decimal rendering of a number inside a template literal.\<close>

definition digit :: "nat \<Rightarrow> char" where
  "digit d = char_of (48 + d)"

fun show_nat :: "nat \<Rightarrow> string" where
  "show_nat n = (if n < 10 then [digit n] else show_nat (n div 10) @ [digit (n mod 10)])"

declare show_nat.simps [simp del]

text \<open>\<^verbatim>\<open>x || ""\<close> on an optional string: \<^verbatim>\<open>undefined\<close> and the empty string are falsy.\<close>

definition or_empty :: "string option \<Rightarrow> string" where
  "or_empty x = (case x of None \<Rightarrow> [] | Some s \<Rightarrow> if s = [] then [] else s)"

text \<open>
  The truth value of an optional string: \<^verbatim>\<open>undefined\<close> and the empty string are
  falsy. \<open>truthy\<close> gives the string itself where it is truthy, as the narrowing after
  \<^verbatim>\<open>if (!x) return\<close> does.
\<close>

definition truthy :: "string option \<Rightarrow> string option" where
  "truthy x = (case x of None \<Rightarrow> None | Some s \<Rightarrow> if s = [] then None else Some s)"

definition falsy :: "string option \<Rightarrow> bool" where
  "falsy x = (truthy x = None)"

subsection \<open>The interfaces of the Redpill API (lines 9 to 43)\<close>

text \<open>
  The records follow the two interfaces of the script. The script casts the parsed body
  to its interface without a check (lines 141 and 164), so a member the interface
  requires can be missing at run time. Where a missing member changes what the handler
  does, the member is optional here, \<open>None\<close> standing for the missing member:
  \<^verbatim>\<open>choices\<close> and \<^verbatim>\<open>message\<close>, whose absence makes the read of line 177 throw, and
  \<^verbatim>\<open>content\<close>, which the script guards with \<^verbatim>\<open>|| ""\<close>. The other required members are
  strings as declared; reading a missing one throws nothing. \<^verbatim>\<open>id\<close>, \<^verbatim>\<open>model\<close> and
  \<^verbatim>\<open>value\<close> carry a prefix, their names being taken.
\<close>

record chat_message =
  role :: string
  content :: "string option"

record chat_choice =
  message :: "chat_message option"

record chat_usage =
  prompt_tokens :: int
  completion_tokens :: int
  total_tokens :: int

record RedpillChatResponse =
  chat_id :: string
  chat_model :: string
  choices :: "chat_choice list option"
  usage :: "chat_usage option"

record tee_signature =
  algorithm :: string
  curve :: string
  sig_value :: string
  public_key :: string
  message_hash :: string

record tee_payload =
  request_hash :: string
  response_hash :: string
  timestamp :: string
  payload_model :: string
  tee_instance :: string

record RedpillSignatureResponse =
  request_id :: string
  sig_model :: string
  signature :: "tee_signature option"
  payload :: "tee_payload option"
  cert_chain :: "string list option"

subsection \<open>Requests, responses and events\<close>

text \<open>
  An outbound request as \<^verbatim>\<open>fetch\<close> receives it. The body is the value handed to
  \<^verbatim>\<open>JSON.stringify\<close>.
\<close>

record request =
  url :: string
  http_method :: string
  headers :: "(string \<times> string) list"
  req_body :: "json option"

text \<open>
  A response of \<^verbatim>\<open>fetch\<close>. Reading the body may throw, as text and as JSON; \<open>'a\<close> is
  the interface the script casts the parsed body to. \<^verbatim>\<open>ok\<close> is what the Fetch standard
  makes it: the status lies in 200 to 299.
\<close>

record 'a response =
  status :: nat
  statusText :: string
  text_result :: "js_thrown + string"
  json_result :: "js_thrown + 'a"

definition ok :: "'a response \<Rightarrow> bool" where
  "ok r = (200 \<le> status r \<and> status r \<le> 299)"

datatype 'a fetched = Rejected js_thrown | Resolved "'a response"

text \<open>
  The network, as seen from the two call sites of \<^verbatim>\<open>fetch\<close>: what the call of line 116
  and what the call of line 148 come back with, for the request made.
\<close>

record upstream =
  chat_fetch :: "request \<Rightarrow> RedpillChatResponse fetched"
  signature_fetch :: "request \<Rightarrow> RedpillSignatureResponse fetched"

datatype level = Debug | Info | Warn | Error

text \<open>
  A log line keeps the level and the message; the object some calls pass after the
  message is not kept.
\<close>

datatype event = Log level string | Fetch request

text \<open>What the handler writes: \<^verbatim>\<open>res.json\<close> alone answers 200.\<close>

record reply =
  res_status :: nat
  res_body :: json

definition res_json :: "json \<Rightarrow> reply" where
  "res_json b = \<lparr>res_status = 200, res_body = b\<rparr>"

definition res_status_json :: "nat \<Rightarrow> json \<Rightarrow> reply" where
  "res_status_json c b = \<lparr>res_status = c, res_body = b\<rparr>"

subsection \<open>The inner action of /weather (lines 80 to 86)\<close>

definition weather :: "'req \<Rightarrow> reply" where
  "weather req = res_json (JObj
     [(''temperature'', JNum 72),
      (''conditions'', JStr ''sunny''),
      (''message'', JStr ''Thanks for your payment!'')])"

subsection \<open>The inner action of /tee-demo (lines 102 to 195)\<close>

definition bearer :: "string \<Rightarrow> string" where
  "bearer key = ''Bearer '' @ key"

definition chat_request :: "string \<Rightarrow> request" where
  "chat_request key =
     \<lparr>url = ''https://api.redpill.ai/v1/chat/completions'',
      http_method = ''POST'',
      headers = [(''Authorization'', bearer key), (''Content-Type'', ''application/json'')],
      req_body = Some (JObj
        [(''model'', JStr ''phala/qwen-2.5-7b-instruct''),
         (''messages'', JArr [JObj [(''role'', JStr ''user''), (''content'', JStr ''Hello'')]])])\<rparr>"

definition signatureUrl :: "string \<Rightarrow> string" where
  "signatureUrl requestId =
     ''https://api.redpill.ai/v1/signature/'' @ requestId
       @ ''?model=phala/qwen-2.5-7b-instruct&signing_algo=ecdsa''"

definition signature_request :: "string \<Rightarrow> string \<Rightarrow> request" where
  "signature_request key requestId =
     \<lparr>url = signatureUrl requestId,
      http_method = ''GET'',
      headers = [(''Authorization'', bearer key)],
      req_body = None\<rparr>"

text \<open>
  Step 1, lines 115 to 143. The result is the parsed chat response, or what was thrown:
  by \<^verbatim>\<open>fetch\<close>, by reading the body, or by the script on a status that is not ok.
\<close>

definition chat_step :: "string \<Rightarrow> upstream \<Rightarrow> event list \<times> (js_thrown + RedpillChatResponse)" where
  "chat_step key up =
     (let calling = [Log Info ''Calling Redpill AI chat completions API'', Fetch (chat_request key)]
      in case chat_fetch up (chat_request key) of
        Rejected e \<Rightarrow> (calling, Inl e)
      | Resolved chatResponse \<Rightarrow>
          if \<not> ok chatResponse then
            (case text_result chatResponse of
               Inl e \<Rightarrow> (calling, Inl e)
             | Inr errorText \<Rightarrow>
                 (calling @ [Log Error (''Chat API failed with status ''
                     @ show_nat (status chatResponse) @ '': '' @ errorText)],
                  Inl (JsError (''Chat API failed: '' @ show_nat (status chatResponse)
                     @ '' '' @ statusText chatResponse))))
          else
            (case json_result chatResponse of
               Inl e \<Rightarrow> (calling, Inl e)
             | Inr chatData \<Rightarrow>
                 (calling @ [Log Info (''Chat completion successful, request_id: ''
                     @ chat_id chatData)],
                  Inr chatData)))"

text \<open>Step 2, lines 146 to 169, for the request id of step 1.\<close>

definition signature_step ::
  "string \<Rightarrow> upstream \<Rightarrow> string \<Rightarrow> event list \<times> (js_thrown + RedpillSignatureResponse)" where
  "signature_step key up requestId =
     (let calling = [Log Info (''Fetching TEE signature for request_id: '' @ requestId),
                     Fetch (signature_request key requestId)]
      in case signature_fetch up (signature_request key requestId) of
        Rejected e \<Rightarrow> (calling, Inl e)
      | Resolved signatureResponse \<Rightarrow>
          if \<not> ok signatureResponse then
            (case text_result signatureResponse of
               Inl e \<Rightarrow> (calling, Inl e)
             | Inr errorText \<Rightarrow>
                 (calling @ [Log Error (''Signature API failed with status ''
                     @ show_nat (status signatureResponse) @ '': '' @ errorText)],
                  Inl (JsError (''Signature API failed: '' @ show_nat (status signatureResponse)
                     @ '' '' @ statusText signatureResponse))))
          else
            (case json_result signatureResponse of
               Inl e \<Rightarrow> (calling, Inl e)
             | Inr signatureData \<Rightarrow>
                 (calling @ [Log Info (''TEE signature retrieved successfully for request_id: ''
                     @ requestId),
                   Log Debug ''Signature response data:''],
                  Inr signatureData)))"

text \<open>The members of the combined answer, lines 172 to 186.\<close>

definition usage_json :: "chat_usage \<Rightarrow> json" where
  "usage_json u = JObj
     [(''prompt_tokens'', JNum (prompt_tokens u)),
      (''completion_tokens'', JNum (completion_tokens u)),
      (''total_tokens'', JNum (total_tokens u))]"

definition signature_json :: "tee_signature \<Rightarrow> json" where
  "signature_json s = JObj
     [(''algorithm'', JStr (algorithm s)),
      (''curve'', JStr (curve s)),
      (''value'', JStr (sig_value s)),
      (''public_key'', JStr (public_key s)),
      (''message_hash'', JStr (message_hash s))]"

definition payload_json :: "tee_payload \<Rightarrow> json" where
  "payload_json p = JObj
     [(''request_hash'', JStr (request_hash p)),
      (''response_hash'', JStr (response_hash p)),
      (''timestamp'', JStr (timestamp p)),
      (''model'', JStr (payload_model p)),
      (''tee_instance'', JStr (tee_instance p))]"

text \<open>
  Reading a property of \<^verbatim>\<open>undefined\<close> throws a \<^verbatim>\<open>TypeError\<close>; the message is the one
  Node gives it.
\<close>

definition TypeError_undefined :: "string \<Rightarrow> js_thrown" where
  "TypeError_undefined property =
     JsError (''Cannot read properties of undefined (reading '' @ [CHR 0x27] @ property
       @ [CHR 0x27] @ '')'')"

text \<open>
  \<^verbatim>\<open>chatData.choices[0]?.message.content || ""\<close>, line 177. The index is read of
  \<^verbatim>\<open>choices\<close> and throws when there is none. \<^verbatim>\<open>?.\<close> stops at a first choice that is
  not there, and at nothing else: \<^verbatim>\<open>content\<close> is read of the message without a guard
  and throws when the first choice has no message.
\<close>

definition first_content :: "RedpillChatResponse \<Rightarrow> js_thrown + string" where
  "first_content chatData =
     (case choices chatData of
        None \<Rightarrow> Inl (TypeError_undefined ''0'')
      | Some [] \<Rightarrow> Inr (or_empty None)
      | Some (c # cs) \<Rightarrow>
          (case message c of
             None \<Rightarrow> Inl (TypeError_undefined ''content'')
           | Some m \<Rightarrow> Inr (or_empty (content m))))"

text \<open>\<^verbatim>\<open>signatureData.cert_chain?.length ?? 0\<close>\<close>

definition cert_chain_length :: "RedpillSignatureResponse \<Rightarrow> nat" where
  "cert_chain_length signatureData =
     (case cert_chain signatureData of None \<Rightarrow> 0 | Some certs \<Rightarrow> length certs)"

text \<open>
  The object of lines 172 to 186. Its members are evaluated in order, so what line 177
  throws is thrown before anything is written.
\<close>

definition combined ::
  "RedpillChatResponse \<Rightarrow> RedpillSignatureResponse \<Rightarrow> js_thrown + json" where
  "combined chatData signatureData =
     (case first_content chatData of
        Inl e \<Rightarrow> Inl e
      | Inr response \<Rightarrow> Inr (JObj
          [(''message'', JStr (''Thanks for your payment! Here'' @ [CHR 0x27]
               @ ''s your TEE-verified AI response.'')),
           (''chat'', JObj (members
              [(''request_id'', Some (JStr (chat_id chatData))),
               (''model'', Some (JStr (chat_model chatData))),
               (''response'', Some (JStr response)),
               (''usage'', map_option usage_json (usage chatData))])),
           (''tee_verification'', JObj (members
              [(''request_id'', Some (JStr (request_id signatureData))),
               (''signature'', map_option signature_json (signature signatureData)),
               (''payload'', map_option payload_json (payload signatureData)),
               (''cert_chain_length'',
                  Some (JNum (int (cert_chain_length signatureData))))]))]))"

text \<open>The body of the \<^verbatim>\<open>try\<close> block: the answer it writes, or what it threw.\<close>

definition not_configured :: "event list \<times> (js_thrown + reply)" where
  "not_configured =
     ([Log Error ''REDPILL_API_KEY not configured''],
      Inr (res_status_json 500 (JObj
        [(''error'', JStr ''Service configuration error''),
         (''message'', JStr ''REDPILL_API_KEY not configured in environment'')])))"

definition tee_demo_try :: "string option \<Rightarrow> upstream \<Rightarrow> event list \<times> (js_thrown + reply)" where
  "tee_demo_try REDPILL_API_KEY up =
     (case truthy REDPILL_API_KEY of
        None \<Rightarrow> not_configured
      | Some key \<Rightarrow>
          (let starting = [Log Info ''Starting TEE verification demo''];
               (t1, a) = chat_step key up
           in case a of
             Inl e \<Rightarrow> (starting @ t1, Inl e)
           | Inr chatData \<Rightarrow>
               (let requestId = chat_id chatData;
                    (t2, b) = signature_step key up requestId
                in case b of
                  Inl e \<Rightarrow> (starting @ t1 @ t2, Inl e)
                | Inr signatureData \<Rightarrow>
                    (case combined chatData signatureData of
                       Inl e \<Rightarrow> (starting @ t1 @ t2, Inl e)
                     | Inr body \<Rightarrow> (starting @ t1 @ t2, Inr (res_json body))))))"

text \<open>The handler: the \<^verbatim>\<open>try\<close> block and its \<^verbatim>\<open>catch\<close> clause, lines 187 to 194.\<close>

definition error_message :: "js_thrown \<Rightarrow> string" where
  "error_message e = (case e of JsError m \<Rightarrow> m | NonError \<Rightarrow> ''Unknown error occurred'')"

definition tee_demo :: "string option \<Rightarrow> upstream \<Rightarrow> event list \<times> reply" where
  "tee_demo REDPILL_API_KEY up =
     (case tee_demo_try REDPILL_API_KEY up of
        (t, Inr r) \<Rightarrow> (t, r)
      | (t, Inl e) \<Rightarrow>
          (t @ [Log Error ''TEE demo endpoint failed:''],
           res_status_json 500 (JObj
             [(''error'', JStr ''TEE verification failed''),
              (''message'', JStr (error_message e))])))"

text \<open>The outbound calls of a run, in order.\<close>

fun calls :: "event list \<Rightarrow> request list" where
  "calls [] = []"
| "calls (Log l m # es) = calls es"
| "calls (Fetch r # es) = r # calls es"

subsection \<open>Start of the process (lines 45 to 62 and the function \<^verbatim>\<open>run\<close>)\<close>

record env =
  EVM_RECEIVING_ADDRESS :: "string option"
  PORT :: "string option"
  REDPILL_API_KEY :: "string option"

record x402ExactArgs =
  network :: string
  asset :: string
  payTo :: "string option"
  amount :: string

record 'r createMiddlewareArgs =
  facilitatorURL :: string
  accepts :: "'r list"

text \<open>
  What the script imports and calls while it starts, none of it among the sources:
  \<^verbatim>\<open>isAddress\<close>, \<^verbatim>\<open>x402Exact\<close> and \<^verbatim>\<open>createMiddleware\<close> of the faremeter packages, and
  \<^verbatim>\<open>parseInt\<close> of the language (no value stands for \<^verbatim>\<open>NaN\<close>). They are parameters of
  the model; a call that throws gives the left summand. \<open>'r\<close> is the payment requirement
  \<^verbatim>\<open>x402Exact\<close> builds, \<open>'m\<close> the middleware.
\<close>

record ('r, 'm) deps =
  isAddress :: "string option \<Rightarrow> bool"
  parseInt :: "string \<Rightarrow> int option"
  x402Exact :: "x402ExactArgs \<Rightarrow> js_thrown + 'r"
  createMiddleware :: "'r createMiddlewareArgs \<Rightarrow> js_thrown + 'm"

datatype inner_action = Weather | TeeDemo

record 'm route =
  path :: string
  middleware :: 'm
  action :: inner_action

text \<open>
  The application once \<^verbatim>\<open>run\<close> has returned: its routes and the port it listens on.
  The callback of \<^verbatim>\<open>listen\<close> and the two signal handlers run later and are left out.
\<close>

record 'm server =
  routes :: "'m route list"
  listening :: int

text \<open>Decimal rendering of an integer.\<close>

definition show_int :: "int \<Rightarrow> string" where
  "show_int i = (if i < 0 then ''-'' @ show_nat (nat (- i)) else show_nat (nat i))"

text \<open>
  \<^verbatim>\<open>app.listen(port, ...)\<close>, line 198. Node checks the port before it binds: a port that
  is \<^verbatim>\<open>NaN\<close> or outside 0 to 65535 throws a \<^verbatim>\<open>RangeError\<close> at once, inside \<^verbatim>\<open>run\<close>;
  the message is the one Node gives it. A failure to bind is reported later, after
  \<^verbatim>\<open>run\<close> has returned.
\<close>

definition bad_port :: "int option \<Rightarrow> js_thrown" where
  "bad_port port =
     JsError (''options.port should be >= 0 and < 65536. Received type number (''
       @ (case port of None \<Rightarrow> ''NaN'' | Some n \<Rightarrow> show_int n) @ '').'')"

definition listen :: "'m route list \<Rightarrow> int option \<Rightarrow> js_thrown + 'm server" where
  "listen mounted port =
     (case port of
        None \<Rightarrow> Inl (bad_port port)
      | Some n \<Rightarrow>
          if 0 \<le> n \<and> n \<le> 65535 then Inr \<lparr>routes = mounted, listening = n\<rparr>
          else Inl (bad_port port))"

text \<open>One \<^verbatim>\<open>app.get\<close>: the requirement, the middleware for it, then the route.\<close>

definition mount ::
  "('r, 'm) deps \<Rightarrow> string option \<Rightarrow> string \<Rightarrow> inner_action \<Rightarrow> js_thrown + 'm route" where
  "mount d payee p a =
     (case x402Exact d
             \<lparr>network = ''base-sepolia'', asset = ''USDC'', payTo = payee, amount = ''10000''\<rparr> of
        Inl e \<Rightarrow> Inl e
      | Inr requirement \<Rightarrow>
          (case createMiddleware d
                  \<lparr>facilitatorURL = ''http://localhost:4000'', accepts = [requirement]\<rparr> of
             Inl e \<Rightarrow> Inl e
           | Inr m \<Rightarrow> Inr \<lparr>path = p, middleware = m, action = a\<rparr>))"

definition run :: "('r, 'm) deps \<Rightarrow> string option \<Rightarrow> int option \<Rightarrow> js_thrown + 'm server" where
  "run d payee port =
     (case mount d payee ''/weather'' Weather of
        Inl e \<Rightarrow> Inl e
      | Inr weather_route \<Rightarrow>
          (case mount d payee ''/tee-demo'' TeeDemo of
             Inl e \<Rightarrow> Inl e
           | Inr tee_route \<Rightarrow> listen [weather_route, tee_route] port))"

text \<open>
  The module from its first statement to the return of \<^verbatim>\<open>run\<close>. A left summand is the
  error the process dies of.
\<close>

definition startup :: "('r, 'm) deps \<Rightarrow> env \<Rightarrow> event list \<times> (js_thrown + 'm server)" where
  "startup d e =
     (let payee = EVM_RECEIVING_ADDRESS e
      in if \<not> isAddress d payee then
           ([], Inl (JsError
             ''EVM_RECEIVING_ADDRESS must be set in your environment, and be a valid EVM address''))
         else
           (let warned =
                  (if falsy (REDPILL_API_KEY e) then
                     [Log Warn
                       ''REDPILL_API_KEY not set in environment. The /tee-demo endpoint will not function.'']
                   else []);
                port = (case truthy (PORT e) of None \<Rightarrow> Some 4021 | Some p \<Rightarrow> parseInt d p)
            in (warned, run d payee port)))"

text \<open>
  The payment requirement of the spec, and the error its constructor fails with.
\<close>

datatype config_error = ConfigurationError

record PaymentRequirement =
  req_network :: string
  req_asset :: string
  req_payee :: string
  req_amount :: int

text \<open>
  Modelled from the spec: \<^verbatim>\<open>x402Exact\<close>, the constructor of a payment requirement, is
  code of the package \<^verbatim>\<open>@faremeter/info\<close> and not among the sources. The spec gives it
  a network, an asset, a payee and an amount, and has it fail with a configuration
  error if the payee is not a valid address for the network or if the amount parses to
  at most 0; a required value that is missing or does not parse is invalid as well.
  Which addresses are valid on a network and how an amount parses are parameters.
\<close>

definition x402Exact_spec ::
  "(string \<Rightarrow> string \<Rightarrow> bool) \<Rightarrow> (string \<Rightarrow> int option) \<Rightarrow> x402ExactArgs
     \<Rightarrow> config_error + PaymentRequirement" where
  "x402Exact_spec valid_address parse_amount args =
     (case payTo args of
        None \<Rightarrow> Inl ConfigurationError
      | Some payee \<Rightarrow>
          if \<not> valid_address (network args) payee then Inl ConfigurationError
          else (case parse_amount (amount args) of
                  None \<Rightarrow> Inl ConfigurationError
                | Some n \<Rightarrow>
                    if n \<le> 0 then Inl ConfigurationError
                    else Inr \<lparr>req_network = network args, req_asset = asset args,
                               req_payee = payee, req_amount = n\<rparr>))"

subsection \<open>Observations on a run, and the inputs of the examples\<close>

definition starts_with :: "string \<Rightarrow> string \<Rightarrow> bool" where
  "starts_with p s = (take (length p) s = p)"

text \<open>The calls of a run that went to the signature endpoint.\<close>

definition signature_calls :: "event list \<Rightarrow> request list" where
  "signature_calls t =
     filter (\<lambda>r. starts_with ''https://api.redpill.ai/v1/signature/'' (url r)) (calls t)"

definition scenario_chat :: RedpillChatResponse where
  "scenario_chat =
     \<lparr>chat_id = ''req-1'', chat_model = ''m'',
      choices = Some [\<lparr>message = Some \<lparr>role = ''assistant'', content = Some ''hi''\<rparr>\<rparr>],
      usage = None\<rparr>"

definition scenario_signature :: RedpillSignatureResponse where
  "scenario_signature =
     \<lparr>request_id = ''req-1'', sig_model = ''m'', signature = None, payload = None,
      cert_chain = Some [''a'', ''b'']\<rparr>"

definition answering :: "nat \<Rightarrow> string \<Rightarrow> 'a \<Rightarrow> 'a response" where
  "answering code reason parsed =
     \<lparr>status = code, statusText = reason, text_result = Inr ''{}'', json_result = Inr parsed\<rparr>"

definition scenario_upstream :: upstream where
  "scenario_upstream =
     \<lparr>chat_fetch = (\<lambda>r. Resolved (answering 200 ''OK'' scenario_chat)),
      signature_fetch = (\<lambda>r. Resolved (answering 200 ''OK'' scenario_signature))\<rparr>"

definition overloaded_upstream :: upstream where
  "overloaded_upstream =
     \<lparr>chat_fetch = (\<lambda>r. Resolved (answering 503 ''Service Unavailable'' scenario_chat)),
      signature_fetch = (\<lambda>r. Resolved (answering 200 ''OK'' scenario_signature))\<rparr>"

definition silent_chat :: RedpillChatResponse where
  "silent_chat = \<lparr>chat_id = ''req-2'', chat_model = ''m'', choices = Some [], usage = None\<rparr>"

text \<open>A chat body whose first choice has no message, \<^verbatim>\<open>choices: [{}]\<close>.\<close>

definition headless_chat :: RedpillChatResponse where
  "headless_chat =
     \<lparr>chat_id = ''req-3'', chat_model = ''m'', choices = Some [\<lparr>message = None\<rparr>],
      usage = None\<rparr>"

definition headless_upstream :: upstream where
  "headless_upstream =
     \<lparr>chat_fetch = (\<lambda>r. Resolved (answering 200 ''OK'' headless_chat)),
      signature_fetch = (\<lambda>r. Resolved (answering 200 ''OK'' scenario_signature))\<rparr>"

definition bare_signature :: RedpillSignatureResponse where
  "bare_signature =
     \<lparr>request_id = ''req-2'', sig_model = ''m'', signature = None, payload = None,
      cert_chain = None\<rparr>"

definition silent_upstream :: upstream where
  "silent_upstream =
     \<lparr>chat_fetch = (\<lambda>r. Resolved (answering 200 ''OK'' silent_chat)),
      signature_fetch = (\<lambda>r. Resolved (answering 200 ''OK'' bare_signature))\<rparr>"

text \<open>
  Inputs for the start of the process: a test for addresses (\<^verbatim>\<open>0x\<close> and 40 more
  characters), imports that succeed, imports of which \<^verbatim>\<open>x402Exact\<close> throws, and an
  environment with a payee and without a credential.
\<close>

definition hex_address :: "string option \<Rightarrow> bool" where
  "hex_address a = (case a of None \<Rightarrow> False | Some s \<Rightarrow> length s = 42 \<and> take 2 s = ''0x'')"

definition example_deps :: "(x402ExactArgs, string) deps" where
  "example_deps =
     \<lparr>isAddress = hex_address,
      parseInt = (\<lambda>s. if s = ''8080'' then Some 8080 else None),
      x402Exact = Inr,
      createMiddleware = (\<lambda>args. Inr (facilitatorURL args))\<rparr>"

definition refusing_deps :: "(x402ExactArgs, string) deps" where
  "refusing_deps = example_deps\<lparr>x402Exact := (\<lambda>args. Inl (JsError ''unknown asset''))\<rparr>"

definition example_env :: env where
  "example_env =
     \<lparr>EVM_RECEIVING_ADDRESS = Some ''0x1111111111111111111111111111111111111111'',
      PORT = None,
      REDPILL_API_KEY = None\<rparr>"

definition valid_on :: "string \<Rightarrow> string \<Rightarrow> bool" where
  "valid_on net a = hex_address (Some a)"

definition parse_amount :: "string \<Rightarrow> int option" where
  "parse_amount s = (if s = ''10000'' then Some 10000 else if s = ''0'' then Some 0 else None)"

definition startup_args :: "string option \<Rightarrow> x402ExactArgs" where
  "startup_args payee =
     \<lparr>network = ''base-sepolia'', asset = ''USDC'', payTo = payee, amount = ''10000''\<rparr>"

section \<open>Properties\<close>

subsection \<open>The steps of the handler\<close>

lemma calls_append: "calls (s @ t) = calls s @ calls t"
  by (induction s rule: calls.induct) simp_all

lemma calls_chat_step: "calls (fst (chat_step key up)) = [chat_request key]"
  by (simp add: chat_step_def Let_def split: fetched.split sum.split)

lemma calls_signature_step:
  "calls (fst (signature_step key up requestId)) = [signature_request key requestId]"
  by (simp add: signature_step_def Let_def split: fetched.split sum.split)

lemma chat_step_Inr:
  "snd (chat_step key up) = Inr chatData \<longleftrightarrow>
     (\<exists>r. chat_fetch up (chat_request key) = Resolved r \<and> ok r \<and> json_result r = Inr chatData)"
  by (auto simp add: chat_step_def Let_def split: fetched.split sum.split)

lemma signature_step_Inr:
  "snd (signature_step key up requestId) = Inr signatureData \<longleftrightarrow>
     (\<exists>r. signature_fetch up (signature_request key requestId) = Resolved r \<and> ok r
        \<and> json_result r = Inr signatureData)"
  by (auto simp add: signature_step_def Let_def split: fetched.split sum.split)

lemma tee_demo_unset:
  "truthy K = None \<Longrightarrow> tee_demo K up =
     ([Log Error ''REDPILL_API_KEY not configured''],
      \<lparr>res_status = 500, res_body = JObj
        [(''error'', JStr ''Service configuration error''),
         (''message'', JStr ''REDPILL_API_KEY not configured in environment'')]\<rparr>)"
  by (simp add: tee_demo_def tee_demo_try_def not_configured_def res_status_json_def)

lemma calls_tee_demo_chat_failed:
  "truthy K = Some key \<Longrightarrow> snd (chat_step key up) = Inl e \<Longrightarrow>
     calls (fst (tee_demo K up)) = [chat_request key]"
  using calls_chat_step [of key up]
  by (cases "chat_step key up") (simp add: tee_demo_def tee_demo_try_def calls_append)

lemma calls_tee_demo_chat_done:
  "truthy K = Some key \<Longrightarrow> snd (chat_step key up) = Inr chatData \<Longrightarrow>
     calls (fst (tee_demo K up)) = [chat_request key, signature_request key (chat_id chatData)]"
  using calls_chat_step [of key up] calls_signature_step [of key up "chat_id chatData"]
  by (cases "chat_step key up"; cases "signature_step key up (chat_id chatData)")
     (simp add: tee_demo_def tee_demo_try_def calls_append Let_def split: sum.split)

lemma signature_url_is_signature_call:
  "starts_with ''https://api.redpill.ai/v1/signature/'' (url (signature_request key requestId))"
  by (simp add: signature_request_def signatureUrl_def starts_with_def)

lemma chat_url_not_signature_call:
  "\<not> starts_with ''https://api.redpill.ai/v1/signature/'' (url (chat_request key))"
  by (simp add: chat_request_def starts_with_def)

lemma truthy_example: "truthy (Some ''sk-1'') = Some ''sk-1''"
  by (simp add: truthy_def)

lemma scenario_chat_fetch:
  "chat_fetch scenario_upstream q = Resolved (answering 200 ''OK'' scenario_chat)"
  by (simp add: scenario_upstream_def)

lemma scenario_signature_fetch:
  "signature_fetch scenario_upstream q = Resolved (answering 200 ''OK'' scenario_signature)"
  by (simp add: scenario_upstream_def)

lemma answering_200: "ok (answering 200 reason d)" "json_result (answering 200 reason d) = Inr d"
  by (simp_all add: ok_def answering_def)

lemma scenario_chat_id: "chat_id scenario_chat = ''req-1''"
  by (simp add: scenario_chat_def)

subsection \<open>The order of the two calls\<close>

text \<open>
  C1. When the chat endpoint answers with a status outside 200 to 299, the chat call is
  the only outbound call of the run and the number of calls to the signature endpoint
  is 0. Whenever a run does call the signature endpoint, the chat call resolved with a
  status that is ok and a body that parsed, and the calls of the run are the chat call
  followed by the signature call for the id of that body.
\<close>

theorem signature_call_only_after_chat_success:
  "(truthy K = Some key \<and> chat_fetch up (chat_request key) = Resolved r \<and> \<not> ok r
      \<longrightarrow> calls (fst (tee_demo K up)) = [chat_request key]
        \<and> length (signature_calls (fst (tee_demo K up))) = 0)
   \<and> (signature_calls (fst (tee_demo K up)) \<noteq> []
      \<longrightarrow> (\<exists>key r chatData. truthy K = Some key
             \<and> chat_fetch up (chat_request key) = Resolved r \<and> ok r
             \<and> json_result r = Inr chatData
             \<and> calls (fst (tee_demo K up))
                 = [chat_request key, signature_request key (chat_id chatData)]))"
proof (intro conjI impI)
  assume a: "truthy K = Some key \<and> chat_fetch up (chat_request key) = Resolved r \<and> \<not> ok r"
  then have "\<exists>e. snd (chat_step key up) = Inl e"
    by (cases "snd (chat_step key up)") (auto simp: chat_step_Inr)
  with a show "calls (fst (tee_demo K up)) = [chat_request key]"
    by (auto simp: calls_tee_demo_chat_failed)
  then show "length (signature_calls (fst (tee_demo K up))) = 0"
    by (simp add: signature_calls_def chat_url_not_signature_call)
next
  assume n: "signature_calls (fst (tee_demo K up)) \<noteq> []"
  show "\<exists>key r chatData. truthy K = Some key
      \<and> chat_fetch up (chat_request key) = Resolved r \<and> ok r \<and> json_result r = Inr chatData
      \<and> calls (fst (tee_demo K up)) = [chat_request key, signature_request key (chat_id chatData)]"
  proof (cases "truthy K")
    case None
    with n show ?thesis by (simp add: tee_demo_unset signature_calls_def)
  next
    case (Some key)
    show ?thesis
    proof (cases "snd (chat_step key up)")
      case (Inl e)
      with Some n show ?thesis
        by (simp add: calls_tee_demo_chat_failed signature_calls_def chat_url_not_signature_call)
    next
      case (Inr chatData)
      then obtain r where "chat_fetch up (chat_request key) = Resolved r" "ok r"
          "json_result r = Inr chatData"
        by (auto simp: chat_step_Inr)
      with Some Inr show ?thesis
        by (auto simp: calls_tee_demo_chat_done)
    qed
  qed
qed

theorem signature_call_only_after_chat_success_witness:
  "truthy (Some ''sk-1'') = Some ''sk-1''
   \<and> chat_fetch overloaded_upstream (chat_request ''sk-1'')
       = Resolved (answering 503 ''Service Unavailable'' scenario_chat)
   \<and> \<not> ok (answering 503 ''Service Unavailable'' scenario_chat)
   \<and> calls (fst (tee_demo (Some ''sk-1'') overloaded_upstream)) = [chat_request ''sk-1'']
   \<and> length (signature_calls (fst (tee_demo (Some ''sk-1'') overloaded_upstream))) = 0
   \<and> signature_calls (fst (tee_demo (Some ''sk-1'') scenario_upstream)) \<noteq> []
   \<and> (\<exists>key r chatData. truthy (Some ''sk-1'') = Some key
         \<and> chat_fetch scenario_upstream (chat_request key) = Resolved r \<and> ok r
         \<and> json_result r = Inr chatData
         \<and> calls (fst (tee_demo (Some ''sk-1'') scenario_upstream))
             = [chat_request key, signature_request key (chat_id chatData)])"
proof -
  have f: "chat_fetch overloaded_upstream (chat_request ''sk-1'')
      = Resolved (answering 503 ''Service Unavailable'' scenario_chat)"
    by (simp add: overloaded_upstream_def)
  have b: "\<not> ok (answering 503 ''Service Unavailable'' scenario_chat)"
    by (simp add: ok_def answering_def)
  have "snd (chat_step ''sk-1'' scenario_upstream) = Inr scenario_chat"
    by (simp add: chat_step_Inr scenario_chat_fetch answering_200)
  then have "calls (fst (tee_demo (Some ''sk-1'') scenario_upstream))
       = [chat_request ''sk-1'', signature_request ''sk-1'' ''req-1'']"
    using calls_tee_demo_chat_done [OF truthy_example] by (simp add: scenario_chat_id)
  then have n: "signature_calls (fst (tee_demo (Some ''sk-1'') scenario_upstream)) \<noteq> []"
    by (simp add: signature_calls_def signature_url_is_signature_call)
  from signature_call_only_after_chat_success
    [of "Some ''sk-1''" "''sk-1''" overloaded_upstream
      "answering 503 ''Service Unavailable'' scenario_chat"] truthy_example f b
  have 1: "calls (fst (tee_demo (Some ''sk-1'') overloaded_upstream)) = [chat_request ''sk-1'']
    \<and> length (signature_calls (fst (tee_demo (Some ''sk-1'') overloaded_upstream))) = 0"
    by blast
  from signature_call_only_after_chat_success [of "Some ''sk-1''" _ scenario_upstream] n
  have 2: "\<exists>key r chatData. truthy (Some ''sk-1'') = Some key
         \<and> chat_fetch scenario_upstream (chat_request key) = Resolved r \<and> ok r
         \<and> json_result r = Inr chatData
         \<and> calls (fst (tee_demo (Some ''sk-1'') scenario_upstream))
             = [chat_request key, signature_request key (chat_id chatData)]"
    by blast
  from truthy_example f b 1 n 2 show ?thesis by blast
qed

subsection \<open>The answers of the handler\<close>

lemma tee_demo_both_calls:
  assumes "truthy K = Some key"
    and "chat_fetch up (chat_request key) = Resolved r" "ok r" "json_result r = Inr chatData"
    and "signature_fetch up (signature_request key (chat_id chatData)) = Resolved r'" "ok r'"
      "json_result r' = Inr signatureData"
  shows "snd (tee_demo K up) =
     (case combined chatData signatureData of
        Inl e \<Rightarrow> res_status_json 500 (JObj
          [(''error'', JStr ''TEE verification failed''),
           (''message'', JStr (error_message e))])
      | Inr body \<Rightarrow> res_json body)"
proof -
  have c: "snd (chat_step key up) = Inr chatData"
    using assms(2-4) by (auto simp: chat_step_Inr)
  have s: "snd (signature_step key up (chat_id chatData)) = Inr signatureData"
    using assms(5-7) by (auto simp: signature_step_Inr)
  show ?thesis
    using assms(1) c s
    by (cases "chat_step key up"; cases "signature_step key up (chat_id chatData)")
       (simp add: tee_demo_def tee_demo_try_def Let_def split: sum.split)
qed

lemma tee_demo_success:
  assumes "truthy K = Some key"
    and "chat_fetch up (chat_request key) = Resolved r" "ok r" "json_result r = Inr chatData"
    and "signature_fetch up (signature_request key (chat_id chatData)) = Resolved r'" "ok r'"
      "json_result r' = Inr signatureData"
    and "combined chatData signatureData = Inr body"
  shows "snd (tee_demo K up) = res_json body"
  using tee_demo_both_calls [OF assms(1-7)] assms(8) by simp

lemma tee_demo_thrown_late:
  assumes "truthy K = Some key"
    and "chat_fetch up (chat_request key) = Resolved r" "ok r" "json_result r = Inr chatData"
    and "signature_fetch up (signature_request key (chat_id chatData)) = Resolved r'" "ok r'"
      "json_result r' = Inr signatureData"
    and "first_content chatData = Inl e"
  shows "snd (tee_demo K up) =
     \<lparr>res_status = 500, res_body = JObj
        [(''error'', JStr ''TEE verification failed''),
         (''message'', JStr (error_message e))]\<rparr>"
  using tee_demo_both_calls [OF assms(1-7)] assms(8)
  by (simp add: combined_def res_status_json_def)

lemma tee_demo_dichotomy_steps:
  "(\<exists>key chatData signatureData body. truthy K = Some key
       \<and> snd (chat_step key up) = Inr chatData
       \<and> snd (signature_step key up (chat_id chatData)) = Inr signatureData
       \<and> combined chatData signatureData = Inr body
       \<and> snd (tee_demo K up) = res_json body)
   \<or> (\<exists>e m. snd (tee_demo K up)
         = \<lparr>res_status = 500, res_body = JObj [(''error'', JStr e), (''message'', JStr m)]\<rparr>)"
proof (cases "truthy K")
  case None
  then show ?thesis by (simp add: tee_demo_unset)
next
  case (Some key)
  obtain t1 a where c: "chat_step key up = (t1, a)" by (cases "chat_step key up")
  show ?thesis
  proof (cases a)
    case (Inl e)
    with Some c show ?thesis
      by (simp add: tee_demo_def tee_demo_try_def res_status_json_def)
  next
    case (Inr chatData)
    obtain t2 b where s: "signature_step key up (chat_id chatData) = (t2, b)"
      by (cases "signature_step key up (chat_id chatData)")
    show ?thesis
    proof (cases b)
      case (Inl e)
      with Some c Inr s show ?thesis
        by (simp add: tee_demo_def tee_demo_try_def Let_def res_status_json_def)
    next
      case signed: (Inr signatureData)
      with Some c Inr s show ?thesis
        by (cases "combined chatData signatureData")
           (simp_all add: tee_demo_def tee_demo_try_def Let_def res_status_json_def)
    qed
  qed
qed

lemma combined_Inr:
  "combined c s = Inr body \<Longrightarrow> \<exists>response. first_content c = Inr response"
  by (cases "first_content c") (simp_all add: combined_def)

lemma jget_response:
  "first_content c = Inr response \<Longrightarrow> combined c s = Inr body \<Longrightarrow>
     jget body [''chat'', ''response''] = Some (JStr response)"
  by (auto simp add: combined_def)

lemma jget_cert_chain_length:
  "combined c s = Inr body \<Longrightarrow>
     jget body [''tee_verification'', ''cert_chain_length'']
       = Some (JNum (int (cert_chain_length s)))"
  by (cases "first_content c"; cases "signature s"; cases "payload s")
     (auto simp add: combined_def)

lemma status_200_built:
  assumes "truthy K = Some key"
    and "chat_fetch up (chat_request key) = Resolved r" "ok r" "json_result r = Inr chatData"
    and "signature_fetch up (signature_request key (chat_id chatData)) = Resolved r'" "ok r'"
      "json_result r' = Inr signatureData"
    and "res_status (snd (tee_demo K up)) = 200"
  shows "\<exists>body. combined chatData signatureData = Inr body \<and> snd (tee_demo K up) = res_json body"
  using tee_demo_both_calls [OF assms(1-7)] assms(8)
  by (cases "combined chatData signatureData") (simp_all add: res_status_json_def)

lemma silent_chat_fetch:
  "chat_fetch silent_upstream q = Resolved (answering 200 ''OK'' silent_chat)"
  by (simp add: silent_upstream_def)

lemma silent_signature_fetch:
  "signature_fetch silent_upstream q = Resolved (answering 200 ''OK'' bare_signature)"
  by (simp add: silent_upstream_def)

lemma headless_chat_fetch:
  "chat_fetch headless_upstream q = Resolved (answering 200 ''OK'' headless_chat)"
  by (simp add: headless_upstream_def)

lemma headless_signature_fetch:
  "signature_fetch headless_upstream q = Resolved (answering 200 ''OK'' scenario_signature)"
  by (simp add: headless_upstream_def)

lemma first_content_scenario: "first_content scenario_chat = Inr ''hi''"
  by (simp add: first_content_def scenario_chat_def or_empty_def)

lemma first_content_silent: "first_content silent_chat = Inr ''''"
  by (simp add: first_content_def silent_chat_def or_empty_def)

lemma first_content_headless: "first_content headless_chat = Inl (TypeError_undefined ''content'')"
  by (simp add: first_content_def headless_chat_def)

lemma combined_scenario: "\<exists>body. combined scenario_chat scenario_signature = Inr body"
  by (simp add: combined_def first_content_scenario)

lemma combined_silent: "\<exists>body. combined silent_chat bare_signature = Inr body"
  by (simp add: combined_def first_content_silent)

lemma show_nat_503: "show_nat 503 = ''503''"
  by code_simp

text \<open>
  C2. With the credential unset (or empty), every run of the handler answers 500 with
  the body \<^verbatim>\<open>{error: "Service configuration error", message: "REDPILL_API_KEY not
  configured in environment"}\<close>, logs one error line, and makes no outbound call: neither
  the chat call nor the signature call.
\<close>

theorem no_credential_no_call:
  "falsy K \<Longrightarrow>
     tee_demo K up =
       ([Log Error ''REDPILL_API_KEY not configured''],
        \<lparr>res_status = 500, res_body = JObj
          [(''error'', JStr ''Service configuration error''),
           (''message'', JStr ''REDPILL_API_KEY not configured in environment'')]\<rparr>)
     \<and> calls (fst (tee_demo K up)) = []"
  by (simp add: falsy_def tee_demo_unset)

theorem no_credential_no_call_witness:
  "falsy None
   \<and> tee_demo None scenario_upstream =
       ([Log Error ''REDPILL_API_KEY not configured''],
        \<lparr>res_status = 500, res_body = JObj
          [(''error'', JStr ''Service configuration error''),
           (''message'', JStr ''REDPILL_API_KEY not configured in environment'')]\<rparr>)
   \<and> calls (fst (tee_demo None scenario_upstream)) = []"
proof -
  have f: "falsy None" by (simp add: falsy_def truthy_def)
  from f no_credential_no_call [OF f, of scenario_upstream] show ?thesis by simp
qed

text \<open>
  C3. When the chat call resolves with an ok status and a body that parses, the calls
  of the run are the chat call followed by one signature call, and the URL of that
  call is the fixed prefix, the \<^verbatim>\<open>id\<close> of the chat body as it came, and the fixed query.
  No other id gives that URL.
\<close>

theorem request_id_forwarded:
  "truthy K = Some key \<Longrightarrow> chat_fetch up (chat_request key) = Resolved r \<Longrightarrow> ok r \<Longrightarrow>
   json_result r = Inr chatData \<Longrightarrow>
     calls (fst (tee_demo K up)) = [chat_request key, signature_request key (chat_id chatData)]
     \<and> url (signature_request key (chat_id chatData))
         = ''https://api.redpill.ai/v1/signature/'' @ chat_id chatData
             @ ''?model=phala/qwen-2.5-7b-instruct&signing_algo=ecdsa''
     \<and> (\<forall>other. signatureUrl other = signatureUrl (chat_id chatData)
           \<longrightarrow> other = chat_id chatData)"
proof -
  assume "truthy K = Some key" "chat_fetch up (chat_request key) = Resolved r" "ok r"
    "json_result r = Inr chatData"
  then have "calls (fst (tee_demo K up))
      = [chat_request key, signature_request key (chat_id chatData)]"
    by (auto simp: chat_step_Inr intro: calls_tee_demo_chat_done)
  then show ?thesis by (simp add: signature_request_def signatureUrl_def)
qed

theorem request_id_forwarded_witness:
  "truthy (Some ''sk-1'') = Some ''sk-1''
   \<and> chat_fetch scenario_upstream (chat_request ''sk-1'')
       = Resolved (answering 200 ''OK'' scenario_chat)
   \<and> ok (answering 200 ''OK'' scenario_chat)
   \<and> json_result (answering 200 ''OK'' scenario_chat) = Inr scenario_chat
   \<and> calls (fst (tee_demo (Some ''sk-1'') scenario_upstream))
       = [chat_request ''sk-1'', signature_request ''sk-1'' ''req-1'']
   \<and> url (signature_request ''sk-1'' ''req-1'')
       = ''https://api.redpill.ai/v1/signature/req-1?model=phala/qwen-2.5-7b-instruct&signing_algo=ecdsa''"
  using request_id_forwarded [OF truthy_example scenario_chat_fetch answering_200]
    truthy_example scenario_chat_fetch [of "chat_request ''sk-1''"]
    answering_200 [of "''OK''" scenario_chat]
  by (simp add: scenario_chat_id)

text \<open>
  C4. The scenario: the chat endpoint answers with id \<^verbatim>\<open>req-1\<close>, model \<^verbatim>\<open>m\<close> and one
  choice of content \<^verbatim>\<open>hi\<close>, the signature endpoint with request id \<^verbatim>\<open>req-1\<close>, model
  \<^verbatim>\<open>m\<close> and the certificate chain \<^verbatim>\<open>["a", "b"]\<close>. The handler answers 200, with
  \<^verbatim>\<open>chat.response\<close> equal to \<^verbatim>\<open>hi\<close> and \<^verbatim>\<open>tee_verification.cert_chain_length\<close> equal
  to 2.
\<close>

theorem scenario_reply:
  "truthy K = Some key \<Longrightarrow>
   chat_fetch up (chat_request key) = Resolved r \<Longrightarrow> ok r \<Longrightarrow>
   json_result r = Inr scenario_chat \<Longrightarrow>
   signature_fetch up (signature_request key ''req-1'') = Resolved r' \<Longrightarrow> ok r' \<Longrightarrow>
   json_result r' = Inr scenario_signature \<Longrightarrow>
     res_status (snd (tee_demo K up)) = 200
     \<and> jget (res_body (snd (tee_demo K up))) [''chat'', ''response''] = Some (JStr ''hi'')
     \<and> jget (res_body (snd (tee_demo K up))) [''tee_verification'', ''cert_chain_length'']
         = Some (JNum 2)"
proof -
  assume a: "truthy K = Some key" "chat_fetch up (chat_request key) = Resolved r" "ok r"
    "json_result r = Inr scenario_chat"
    "signature_fetch up (signature_request key ''req-1'') = Resolved r'" "ok r'"
    "json_result r' = Inr scenario_signature"
  obtain body where b: "combined scenario_chat scenario_signature = Inr body"
    using combined_scenario by blast
  have "snd (tee_demo K up) = res_json body"
    using a b by (intro tee_demo_success [where r = r and r' = r']) (simp_all add: scenario_chat_id)
  moreover have "cert_chain_length scenario_signature = 2"
    by (simp add: cert_chain_length_def scenario_signature_def)
  ultimately show ?thesis
    using jget_response [OF first_content_scenario b] jget_cert_chain_length [OF b]
    by (simp add: res_json_def)
qed

theorem scenario_reply_witness:
  "truthy (Some ''sk-1'') = Some ''sk-1''
   \<and> chat_fetch scenario_upstream (chat_request ''sk-1'')
       = Resolved (answering 200 ''OK'' scenario_chat)
   \<and> signature_fetch scenario_upstream (signature_request ''sk-1'' ''req-1'')
       = Resolved (answering 200 ''OK'' scenario_signature)
   \<and> res_status (snd (tee_demo (Some ''sk-1'') scenario_upstream)) = 200
   \<and> jget (res_body (snd (tee_demo (Some ''sk-1'') scenario_upstream))) [''chat'', ''response'']
       = Some (JStr ''hi'')
   \<and> jget (res_body (snd (tee_demo (Some ''sk-1'') scenario_upstream)))
         [''tee_verification'', ''cert_chain_length'']
       = Some (JNum 2)"
  using scenario_reply [OF truthy_example scenario_chat_fetch answering_200
      scenario_signature_fetch answering_200]
    truthy_example scenario_chat_fetch [of "chat_request ''sk-1''"]
    scenario_signature_fetch [of "signature_request ''sk-1'' ''req-1''"]
  by simp

text \<open>
  C6. Every run of the handler either is the full success (credential present, both
  calls resolved with an ok status and a body that parsed, the combined body built
  without a throw, answer 200 with that body), or answers 500 with a JSON object of exactly two members, \<^verbatim>\<open>error\<close> and
  \<^verbatim>\<open>message\<close>, both strings. So a missing credential, a failure at the chat stage or at
  the signature stage, and anything else thrown all end in such a body, and the handler
  always answers.
\<close>

theorem every_failure_is_a_json_error:
  "(\<exists>key r chatData r' signatureData body.
       truthy K = Some key
       \<and> chat_fetch up (chat_request key) = Resolved r \<and> ok r \<and> json_result r = Inr chatData
       \<and> signature_fetch up (signature_request key (chat_id chatData)) = Resolved r' \<and> ok r'
       \<and> json_result r' = Inr signatureData
       \<and> combined chatData signatureData = Inr body
       \<and> snd (tee_demo K up) = res_json body)
   \<or> (\<exists>e m. snd (tee_demo K up)
         = \<lparr>res_status = 500, res_body = JObj [(''error'', JStr e), (''message'', JStr m)]\<rparr>)"
  using tee_demo_dichotomy_steps [of K up]
  by (auto simp: chat_step_Inr signature_step_Inr)

theorem every_failure_is_a_json_error_witness:
  "snd (tee_demo (Some ''sk-1'') overloaded_upstream)
     = \<lparr>res_status = 500, res_body = JObj
         [(''error'', JStr ''TEE verification failed''),
          (''message'', JStr ''Chat API failed: 503 Service Unavailable'')]\<rparr>
   \<and> (\<exists>e m. snd (tee_demo (Some ''sk-1'') overloaded_upstream)
         = \<lparr>res_status = 500, res_body = JObj [(''error'', JStr e), (''message'', JStr m)]\<rparr>)"
proof -
  have "\<not> (\<exists>key r chatData. truthy (Some ''sk-1'') = Some key
      \<and> chat_fetch overloaded_upstream (chat_request key) = Resolved r \<and> ok r)"
    by (simp add: overloaded_upstream_def ok_def answering_def)
  with every_failure_is_a_json_error [of "Some ''sk-1''" overloaded_upstream]
  have x: "\<exists>e m. snd (tee_demo (Some ''sk-1'') overloaded_upstream)
         = \<lparr>res_status = 500, res_body = JObj [(''error'', JStr e), (''message'', JStr m)]\<rparr>"
    by auto
  moreover have "snd (tee_demo (Some ''sk-1'') overloaded_upstream)
     = \<lparr>res_status = 500, res_body = JObj
         [(''error'', JStr ''TEE verification failed''),
          (''message'', JStr ''Chat API failed: 503 Service Unavailable'')]\<rparr>"
    by (simp add: tee_demo_def tee_demo_try_def truthy_def chat_step_def overloaded_upstream_def
        answering_def ok_def Let_def show_nat_503 res_status_json_def error_message_def)
  ultimately show ?thesis by blast
qed

text \<open>
  C7, as the handler has it. In a run where both calls succeed: with an empty array of
  choices the handler answers 200 and \<^verbatim>\<open>chat.response\<close> is the empty string, so an empty
  array is no fault; with a first choice that has a message, the handler answers 200
  and \<^verbatim>\<open>chat.response\<close> is the content of that message, or the empty string when the
  message has no content. The read is not total on what the upstream may send: with no
  \<^verbatim>\<open>choices\<close> at all, or a first choice without a message, it throws a \<^verbatim>\<open>TypeError\<close>
  and the handler answers 500 with the error body.
\<close>

theorem first_content_defaults:
  "truthy K = Some key \<Longrightarrow>
   chat_fetch up (chat_request key) = Resolved r \<Longrightarrow> ok r \<Longrightarrow>
   json_result r = Inr chatData \<Longrightarrow>
   signature_fetch up (signature_request key (chat_id chatData)) = Resolved r' \<Longrightarrow> ok r' \<Longrightarrow>
   json_result r' = Inr signatureData \<Longrightarrow>
     (choices chatData = Some [] \<longrightarrow>
        res_status (snd (tee_demo K up)) = 200
        \<and> jget (res_body (snd (tee_demo K up))) [''chat'', ''response''] = Some (JStr ''''))
     \<and> (\<forall>c cs m. choices chatData = Some (c # cs) \<and> message c = Some m \<longrightarrow>
        res_status (snd (tee_demo K up)) = 200
        \<and> jget (res_body (snd (tee_demo K up))) [''chat'', ''response'']
            = Some (JStr (case content m of None \<Rightarrow> '''' | Some s \<Rightarrow> s)))
     \<and> (choices chatData = None \<longrightarrow>
        snd (tee_demo K up) = \<lparr>res_status = 500, res_body = JObj
          [(''error'', JStr ''TEE verification failed''),
           (''message'', JStr (error_message (TypeError_undefined ''0'')))]\<rparr>)
     \<and> (\<forall>c cs. choices chatData = Some (c # cs) \<and> message c = None \<longrightarrow>
        snd (tee_demo K up) = \<lparr>res_status = 500, res_body = JObj
          [(''error'', JStr ''TEE verification failed''),
           (''message'', JStr (error_message (TypeError_undefined ''content'')))]\<rparr>)"
proof -
  assume a: "truthy K = Some key" "chat_fetch up (chat_request key) = Resolved r" "ok r"
    "json_result r = Inr chatData"
    "signature_fetch up (signature_request key (chat_id chatData)) = Resolved r'" "ok r'"
    "json_result r' = Inr signatureData"
  have good: "res_status (snd (tee_demo K up)) = 200
      \<and> jget (res_body (snd (tee_demo K up))) [''chat'', ''response''] = Some (JStr response)"
    if f: "first_content chatData = Inr response" for response
  proof -
    from f obtain body where b: "combined chatData signatureData = Inr body"
      by (simp add: combined_def)
    have "snd (tee_demo K up) = res_json body"
      using a b by (rule tee_demo_success)
    with jget_response [OF f b] show ?thesis by (simp add: res_json_def)
  qed
  have bad: "snd (tee_demo K up) = \<lparr>res_status = 500, res_body = JObj
          [(''error'', JStr ''TEE verification failed''),
           (''message'', JStr (error_message e))]\<rparr>"
    if "first_content chatData = Inl e" for e
    using a that by (rule tee_demo_thrown_late)
  have 1: "choices chatData = Some [] \<longrightarrow>
        res_status (snd (tee_demo K up)) = 200
        \<and> jget (res_body (snd (tee_demo K up))) [''chat'', ''response''] = Some (JStr '''')"
    using good [of "''''"] by (simp add: first_content_def or_empty_def)
  have 2: "\<forall>c cs m. choices chatData = Some (c # cs) \<and> message c = Some m \<longrightarrow>
        res_status (snd (tee_demo K up)) = 200
        \<and> jget (res_body (snd (tee_demo K up))) [''chat'', ''response'']
            = Some (JStr (case content m of None \<Rightarrow> '''' | Some s \<Rightarrow> s))"
  proof (intro allI impI)
    fix c cs m
    assume "choices chatData = Some (c # cs) \<and> message c = Some m"
    then have "first_content chatData = Inr (case content m of None \<Rightarrow> '''' | Some s \<Rightarrow> s)"
      by (simp add: first_content_def or_empty_def split: option.split)
    then show "res_status (snd (tee_demo K up)) = 200
        \<and> jget (res_body (snd (tee_demo K up))) [''chat'', ''response'']
            = Some (JStr (case content m of None \<Rightarrow> '''' | Some s \<Rightarrow> s))"
      by (rule good)
  qed
  have 3: "choices chatData = None \<longrightarrow>
        snd (tee_demo K up) = \<lparr>res_status = 500, res_body = JObj
          [(''error'', JStr ''TEE verification failed''),
           (''message'', JStr (error_message (TypeError_undefined ''0'')))]\<rparr>"
    using bad [of "TypeError_undefined ''0''"] by (simp add: first_content_def)
  have 4: "\<forall>c cs. choices chatData = Some (c # cs) \<and> message c = None \<longrightarrow>
        snd (tee_demo K up) = \<lparr>res_status = 500, res_body = JObj
          [(''error'', JStr ''TEE verification failed''),
           (''message'', JStr (error_message (TypeError_undefined ''content'')))]\<rparr>"
    using bad [of "TypeError_undefined ''content''"] by (simp add: first_content_def)
  from 1 2 3 4 show ?thesis by blast
qed

theorem first_content_defaults_witness:
  "truthy (Some ''sk-1'') = Some ''sk-1''
   \<and> chat_fetch silent_upstream (chat_request ''sk-1'')
       = Resolved (answering 200 ''OK'' silent_chat)
   \<and> signature_fetch silent_upstream (signature_request ''sk-1'' (chat_id silent_chat))
       = Resolved (answering 200 ''OK'' bare_signature)
   \<and> choices silent_chat = Some []
   \<and> res_status (snd (tee_demo (Some ''sk-1'') silent_upstream)) = 200
   \<and> jget (res_body (snd (tee_demo (Some ''sk-1'') silent_upstream))) [''chat'', ''response'']
       = Some (JStr '''')
   \<and> choices scenario_chat
       = Some [\<lparr>message = Some \<lparr>role = ''assistant'', content = Some ''hi''\<rparr>\<rparr>]
   \<and> res_status (snd (tee_demo (Some ''sk-1'') scenario_upstream)) = 200
   \<and> jget (res_body (snd (tee_demo (Some ''sk-1'') scenario_upstream))) [''chat'', ''response'']
       = Some (JStr ''hi'')"
proof -
  have e: "choices silent_chat = Some []" by (simp add: silent_chat_def)
  have h: "choices scenario_chat
       = Some [\<lparr>message = Some \<lparr>role = ''assistant'', content = Some ''hi''\<rparr>\<rparr>]"
    by (simp add: scenario_chat_def)
  from first_content_defaults [OF truthy_example silent_chat_fetch answering_200
      silent_signature_fetch answering_200] e
  have 1: "res_status (snd (tee_demo (Some ''sk-1'') silent_upstream)) = 200
   \<and> jget (res_body (snd (tee_demo (Some ''sk-1'') silent_upstream))) [''chat'', ''response'']
       = Some (JStr '''')"
    by blast
  from first_content_defaults [OF truthy_example scenario_chat_fetch answering_200
      scenario_signature_fetch answering_200] h
  have 2: "res_status (snd (tee_demo (Some ''sk-1'') scenario_upstream)) = 200
   \<and> jget (res_body (snd (tee_demo (Some ''sk-1'') scenario_upstream))) [''chat'', ''response'']
       = Some (JStr ''hi'')"
    by fastforce
  from truthy_example silent_chat_fetch [of "chat_request ''sk-1''"]
    silent_signature_fetch [of "signature_request ''sk-1'' (chat_id silent_chat)"] e 1 h 2
  show ?thesis by blast
qed

text \<open>
  The claim as the spec words it fails on a chat body whose first choice has no message,
  \<^verbatim>\<open>choices: [{}]\<close>: both calls succeed, the content of the message is absent, and the
  read throws instead of giving the empty string; the handler answers 500.
\<close>

theorem first_content_not_total:
  "chat_fetch headless_upstream (chat_request ''sk-1'')
       = Resolved (answering 200 ''OK'' headless_chat)
   \<and> json_result (answering 200 ''OK'' headless_chat) = Inr headless_chat
   \<and> choices headless_chat = Some [\<lparr>message = None\<rparr>]
   \<and> first_content headless_chat
       = Inl (JsError (''Cannot read properties of undefined (reading '' @ [CHR 0x27]
           @ ''content'' @ [CHR 0x27] @ '')''))
   \<and> snd (tee_demo (Some ''sk-1'') headless_upstream)
       = \<lparr>res_status = 500, res_body = JObj
           [(''error'', JStr ''TEE verification failed''),
            (''message'', JStr (''Cannot read properties of undefined (reading ''
               @ [CHR 0x27] @ ''content'' @ [CHR 0x27] @ '')''))]\<rparr>"
proof -
  have c: "choices headless_chat = Some [\<lparr>message = None\<rparr>]"
    by (simp add: headless_chat_def)
  have f: "first_content headless_chat
       = Inl (JsError (''Cannot read properties of undefined (reading '' @ [CHR 0x27]
           @ ''content'' @ [CHR 0x27] @ '')''))"
    using first_content_headless by (simp add: TypeError_undefined_def)
  have "snd (tee_demo (Some ''sk-1'') headless_upstream)
       = \<lparr>res_status = 500, res_body = JObj
           [(''error'', JStr ''TEE verification failed''),
            (''message'', JStr (error_message (TypeError_undefined ''content'')))]\<rparr>"
    by (rule tee_demo_thrown_late [OF truthy_example headless_chat_fetch answering_200
          headless_signature_fetch answering_200 first_content_headless])
  then have t: "snd (tee_demo (Some ''sk-1'') headless_upstream)
       = \<lparr>res_status = 500, res_body = JObj
           [(''error'', JStr ''TEE verification failed''),
            (''message'', JStr (''Cannot read properties of undefined (reading ''
               @ [CHR 0x27] @ ''content'' @ [CHR 0x27] @ '')''))]\<rparr>"
    by (simp add: TypeError_undefined_def error_message_def)
  from headless_chat_fetch [of "chat_request ''sk-1''"] answering_200 (2) [of "''OK''" headless_chat]
    c f t
  show ?thesis by blast
qed

text \<open>
  C10. In every success response, that is in a run where both calls succeed and the
  handler answers 200, \<^verbatim>\<open>tee_verification.cert_chain_length\<close> is the length of the
  certificate chain of the signature body when the chain is present, and 0 when it is
  absent.
\<close>

theorem cert_chain_length_reported:
  "truthy K = Some key \<Longrightarrow>
   chat_fetch up (chat_request key) = Resolved r \<Longrightarrow> ok r \<Longrightarrow>
   json_result r = Inr chatData \<Longrightarrow>
   signature_fetch up (signature_request key (chat_id chatData)) = Resolved r' \<Longrightarrow> ok r' \<Longrightarrow>
   json_result r' = Inr signatureData \<Longrightarrow>
   res_status (snd (tee_demo K up)) = 200 \<Longrightarrow>
     jget (res_body (snd (tee_demo K up))) [''tee_verification'', ''cert_chain_length'']
       = Some (JNum (case cert_chain signatureData of
                       None \<Rightarrow> 0
                     | Some certs \<Rightarrow> int (length certs)))"
proof -
  assume a: "truthy K = Some key" "chat_fetch up (chat_request key) = Resolved r" "ok r"
    "json_result r = Inr chatData"
    "signature_fetch up (signature_request key (chat_id chatData)) = Resolved r'" "ok r'"
    "json_result r' = Inr signatureData"
    "res_status (snd (tee_demo K up)) = 200"
  from a obtain body where b: "combined chatData signatureData = Inr body"
      and t: "snd (tee_demo K up) = res_json body"
    using status_200_built by blast
  from t jget_cert_chain_length [OF b] show ?thesis
    by (simp add: res_json_def cert_chain_length_def split: option.split)
qed

theorem cert_chain_length_reported_witness:
  "res_status (snd (tee_demo (Some ''sk-1'') scenario_upstream)) = 200
   \<and> cert_chain scenario_signature = Some [''a'', ''b'']
   \<and> jget (res_body (snd (tee_demo (Some ''sk-1'') scenario_upstream)))
         [''tee_verification'', ''cert_chain_length''] = Some (JNum 2)
   \<and> res_status (snd (tee_demo (Some ''sk-1'') silent_upstream)) = 200
   \<and> cert_chain bare_signature = None
   \<and> jget (res_body (snd (tee_demo (Some ''sk-1'') silent_upstream)))
         [''tee_verification'', ''cert_chain_length''] = Some (JNum 0)"
proof -
  have p: "cert_chain scenario_signature = Some [''a'', ''b'']"
    by (simp add: scenario_signature_def)
  have q: "cert_chain bare_signature = None"
    by (simp add: bare_signature_def)
  obtain body where "combined scenario_chat scenario_signature = Inr body"
    using combined_scenario by blast
  then have "snd (tee_demo (Some ''sk-1'') scenario_upstream) = res_json body"
    by (rule tee_demo_success [OF truthy_example scenario_chat_fetch answering_200
          scenario_signature_fetch answering_200])
  then have s: "res_status (snd (tee_demo (Some ''sk-1'') scenario_upstream)) = 200"
    by (simp add: res_json_def)
  obtain body' where "combined silent_chat bare_signature = Inr body'"
    using combined_silent by blast
  then have "snd (tee_demo (Some ''sk-1'') silent_upstream) = res_json body'"
    by (rule tee_demo_success [OF truthy_example silent_chat_fetch answering_200
          silent_signature_fetch answering_200])
  then have s': "res_status (snd (tee_demo (Some ''sk-1'') silent_upstream)) = 200"
    by (simp add: res_json_def)
  from cert_chain_length_reported [OF truthy_example scenario_chat_fetch answering_200
      scenario_signature_fetch answering_200 s] p
  have 1: "jget (res_body (snd (tee_demo (Some ''sk-1'') scenario_upstream)))
         [''tee_verification'', ''cert_chain_length''] = Some (JNum 2)"
    by simp
  from cert_chain_length_reported [OF truthy_example silent_chat_fetch answering_200
      silent_signature_fetch answering_200 s'] q
  have 2: "jget (res_body (snd (tee_demo (Some ''sk-1'') silent_upstream)))
         [''tee_verification'', ''cert_chain_length''] = Some (JNum 0)"
    by simp
  from s p 1 s' q 2 show ?thesis by blast
qed

subsection \<open>The inner action of /weather\<close>

text \<open>
  C9. The inner action of \<^verbatim>\<open>/weather\<close> answers 200 with the body \<^verbatim>\<open>{temperature: 72,
  conditions: "sunny", message: "Thanks for your payment!"}\<close> for every request, so any
  two requests get the same answer.
\<close>

theorem weather_is_constant:
  "weather req = \<lparr>res_status = 200, res_body = JObj
       [(''temperature'', JNum 72),
        (''conditions'', JStr ''sunny''),
        (''message'', JStr ''Thanks for your payment!'')]\<rparr>
   \<and> weather req = weather req'"
  by (simp add: weather_def res_json_def)

subsection \<open>The start of the process\<close>

lemma startup_invalid_address:
  "\<not> isAddress d (EVM_RECEIVING_ADDRESS e) \<Longrightarrow>
     startup d e = ([], Inl (JsError
       ''EVM_RECEIVING_ADDRESS must be set in your environment, and be a valid EVM address''))"
  by (simp add: startup_def)

lemma mount_refused:
  "x402Exact d \<lparr>network = ''base-sepolia'', asset = ''USDC'', payTo = payee, amount = ''10000''\<rparr>
      = Inl err \<Longrightarrow> mount d payee p a = Inl err"
  by (simp add: mount_def)

lemma mount_done:
  "x402Exact d \<lparr>network = ''base-sepolia'', asset = ''USDC'', payTo = payee, amount = ''10000''\<rparr>
      = Inr requirement \<Longrightarrow>
   createMiddleware d \<lparr>facilitatorURL = ''http://localhost:4000'', accepts = [requirement]\<rparr>
      = Inr m \<Longrightarrow>
   mount d payee p a = Inr \<lparr>path = p, middleware = m, action = a\<rparr>"
  by (simp add: mount_def)

lemma startup_valid_address:
  "isAddress d (EVM_RECEIVING_ADDRESS e) \<Longrightarrow>
     snd (startup d e)
       = run d (EVM_RECEIVING_ADDRESS e)
           (case truthy (PORT e) of None \<Rightarrow> Some 4021 | Some p \<Rightarrow> parseInt d p)"
  by (simp add: startup_def Let_def)

text \<open>
  C5. The process dies at its start, with the error of line 50, when the payee of the
  environment is not an address; and when \<^verbatim>\<open>x402Exact\<close> throws for the requirement of
  the routes, the process dies of that error. The constructor itself, as the spec
  describes it, fails with a configuration error when the payee is missing or not a
  valid address for the network, or when the amount parses to a value that is at most 0.
\<close>

theorem invalid_requirement_aborts:
  "(\<not> isAddress d (EVM_RECEIVING_ADDRESS e) \<longrightarrow>
      startup d e = ([], Inl (JsError
        ''EVM_RECEIVING_ADDRESS must be set in your environment, and be a valid EVM address'')))
   \<and> (isAddress d (EVM_RECEIVING_ADDRESS e)
        \<and> x402Exact d \<lparr>network = ''base-sepolia'', asset = ''USDC'',
              payTo = EVM_RECEIVING_ADDRESS e, amount = ''10000''\<rparr> = Inl err \<longrightarrow>
      snd (startup d e) = Inl err)
   \<and> (payTo args = None \<or> (\<exists>p. payTo args = Some p \<and> \<not> valid (network args) p)
        \<or> (\<exists>n. parse (amount args) = Some n \<and> n \<le> 0) \<longrightarrow>
      x402Exact_spec valid parse args = Inl ConfigurationError)"
proof (intro conjI impI)
  assume "\<not> isAddress d (EVM_RECEIVING_ADDRESS e)"
  then show "startup d e = ([], Inl (JsError
        ''EVM_RECEIVING_ADDRESS must be set in your environment, and be a valid EVM address''))"
    by (rule startup_invalid_address)
next
  assume "isAddress d (EVM_RECEIVING_ADDRESS e)
        \<and> x402Exact d \<lparr>network = ''base-sepolia'', asset = ''USDC'',
              payTo = EVM_RECEIVING_ADDRESS e, amount = ''10000''\<rparr> = Inl err"
  then show "snd (startup d e) = Inl err"
    by (simp add: startup_valid_address run_def mount_refused)
next
  assume "payTo args = None \<or> (\<exists>p. payTo args = Some p \<and> \<not> valid (network args) p)
        \<or> (\<exists>n. parse (amount args) = Some n \<and> n \<le> 0)"
  then show "x402Exact_spec valid parse args = Inl ConfigurationError"
    by (auto simp: x402Exact_spec_def split: option.split)
qed

theorem invalid_requirement_aborts_witness:
  "\<not> isAddress example_deps (EVM_RECEIVING_ADDRESS (example_env\<lparr>EVM_RECEIVING_ADDRESS := Some ''alice''\<rparr>))
   \<and> startup example_deps (example_env\<lparr>EVM_RECEIVING_ADDRESS := Some ''alice''\<rparr>)
       = ([], Inl (JsError
        ''EVM_RECEIVING_ADDRESS must be set in your environment, and be a valid EVM address''))
   \<and> isAddress refusing_deps (EVM_RECEIVING_ADDRESS example_env)
   \<and> snd (startup refusing_deps example_env) = Inl (JsError ''unknown asset'')
   \<and> parse_amount (amount ((startup_args (EVM_RECEIVING_ADDRESS example_env))\<lparr>amount := ''0''\<rparr>))
       = Some 0
   \<and> x402Exact_spec valid_on parse_amount
        ((startup_args (EVM_RECEIVING_ADDRESS example_env))\<lparr>amount := ''0''\<rparr>)
       = Inl ConfigurationError
   \<and> x402Exact_spec valid_on parse_amount (startup_args (Some ''alice''))
       = Inl ConfigurationError"
proof -
  let ?bad = "example_env\<lparr>EVM_RECEIVING_ADDRESS := Some ''alice''\<rparr>"
  let ?zero = "(startup_args (EVM_RECEIVING_ADDRESS example_env))\<lparr>amount := ''0''\<rparr>"
  have a: "\<not> isAddress example_deps (EVM_RECEIVING_ADDRESS ?bad)"
    by (simp add: example_deps_def example_env_def hex_address_def)
  have b: "isAddress refusing_deps (EVM_RECEIVING_ADDRESS example_env)"
    by (simp add: refusing_deps_def example_deps_def example_env_def hex_address_def)
  have c: "x402Exact refusing_deps \<lparr>network = ''base-sepolia'', asset = ''USDC'',
      payTo = EVM_RECEIVING_ADDRESS example_env, amount = ''10000''\<rparr>
        = Inl (JsError ''unknown asset'')"
    by (simp add: refusing_deps_def example_deps_def)
  have z: "parse_amount (amount ?zero) = Some 0"
    by (simp add: parse_amount_def startup_args_def)
  have v: "payTo (startup_args (Some ''alice'')) = Some ''alice''
      \<and> \<not> valid_on (network (startup_args (Some ''alice''))) ''alice''"
    by (simp add: startup_args_def valid_on_def hex_address_def)
  from invalid_requirement_aborts [where d = example_deps and e = ?bad] a
  have 1: "startup example_deps ?bad = ([], Inl (JsError
        ''EVM_RECEIVING_ADDRESS must be set in your environment, and be a valid EVM address''))"
    by blast
  from invalid_requirement_aborts
    [where d = refusing_deps and e = example_env and err = "JsError ''unknown asset''"] b c
  have 2: "snd (startup refusing_deps example_env) = Inl (JsError ''unknown asset'')"
    by blast
  from invalid_requirement_aborts [where args = ?zero and parse = parse_amount and valid = valid_on] z
  have 3: "x402Exact_spec valid_on parse_amount ?zero = Inl ConfigurationError"
    by auto
  from invalid_requirement_aborts
    [where args = "startup_args (Some ''alice'')" and parse = parse_amount and valid = valid_on] v
  have 4: "x402Exact_spec valid_on parse_amount (startup_args (Some ''alice''))
      = Inl ConfigurationError"
    by blast
  from a 1 b 2 z 3 4 show ?thesis by blast
qed

text \<open>
  C8. With a payee that is an address and the credential unset, the start of the
  process logs one warning and goes on: its outcome is the outcome with any credential
  set, and when the two imports succeed and the port is one \<^verbatim>\<open>listen\<close> accepts it is a
  server with both routes, \<^verbatim>\<open>/weather\<close> and \<^verbatim>\<open>/tee-demo\<close>, listening on that port.
\<close>

theorem missing_credential_only_warns:
  "isAddress d (EVM_RECEIVING_ADDRESS e) \<Longrightarrow> falsy (REDPILL_API_KEY e) \<Longrightarrow>
     fst (startup d e) =
       [Log Warn ''REDPILL_API_KEY not set in environment. The /tee-demo endpoint will not function.'']
     \<and> snd (startup d e) = snd (startup d (e\<lparr>REDPILL_API_KEY := k\<rparr>))
     \<and> (\<forall>requirement m n.
          x402Exact d \<lparr>network = ''base-sepolia'', asset = ''USDC'',
              payTo = EVM_RECEIVING_ADDRESS e, amount = ''10000''\<rparr> = Inr requirement
          \<and> createMiddleware d
              \<lparr>facilitatorURL = ''http://localhost:4000'', accepts = [requirement]\<rparr> = Inr m
          \<and> (case truthy (PORT e) of None \<Rightarrow> Some 4021 | Some p \<Rightarrow> parseInt d p) = Some n
          \<and> 0 \<le> n \<and> n \<le> 65535
          \<longrightarrow> snd (startup d e) = Inr
                \<lparr>routes = [\<lparr>path = ''/weather'', middleware = m, action = Weather\<rparr>,
                           \<lparr>path = ''/tee-demo'', middleware = m, action = TeeDemo\<rparr>],
                 listening = n\<rparr>)"
proof -
  assume a: "isAddress d (EVM_RECEIVING_ADDRESS e)" and f: "falsy (REDPILL_API_KEY e)"
  from a f have 1: "fst (startup d e) =
       [Log Warn ''REDPILL_API_KEY not set in environment. The /tee-demo endpoint will not function.'']"
    by (simp add: startup_def Let_def)
  from a have 2: "snd (startup d e) = snd (startup d (e\<lparr>REDPILL_API_KEY := k\<rparr>))"
    by (simp add: startup_valid_address)
  from a have 3: "\<forall>requirement m n.
          x402Exact d \<lparr>network = ''base-sepolia'', asset = ''USDC'',
              payTo = EVM_RECEIVING_ADDRESS e, amount = ''10000''\<rparr> = Inr requirement
          \<and> createMiddleware d
              \<lparr>facilitatorURL = ''http://localhost:4000'', accepts = [requirement]\<rparr> = Inr m
          \<and> (case truthy (PORT e) of None \<Rightarrow> Some 4021 | Some p \<Rightarrow> parseInt d p) = Some n
          \<and> 0 \<le> n \<and> n \<le> 65535
          \<longrightarrow> snd (startup d e) = Inr
                \<lparr>routes = [\<lparr>path = ''/weather'', middleware = m, action = Weather\<rparr>,
                           \<lparr>path = ''/tee-demo'', middleware = m, action = TeeDemo\<rparr>],
                 listening = n\<rparr>"
    by (simp add: startup_valid_address run_def mount_done listen_def)
  from 1 2 3 show ?thesis by blast
qed

theorem missing_credential_only_warns_witness:
  "isAddress example_deps (EVM_RECEIVING_ADDRESS example_env)
   \<and> falsy (REDPILL_API_KEY example_env)
   \<and> startup example_deps example_env =
       ([Log Warn ''REDPILL_API_KEY not set in environment. The /tee-demo endpoint will not function.''],
        Inr \<lparr>routes = [\<lparr>path = ''/weather'', middleware = ''http://localhost:4000'', action = Weather\<rparr>,
                       \<lparr>path = ''/tee-demo'', middleware = ''http://localhost:4000'', action = TeeDemo\<rparr>],
             listening = 4021\<rparr>)"
proof -
  have a: "isAddress example_deps (EVM_RECEIVING_ADDRESS example_env)"
    by (simp add: example_deps_def example_env_def hex_address_def)
  have f: "falsy (REDPILL_API_KEY example_env)"
    by (simp add: example_env_def falsy_def truthy_def)
  have x: "x402Exact example_deps \<lparr>network = ''base-sepolia'', asset = ''USDC'',
              payTo = EVM_RECEIVING_ADDRESS example_env, amount = ''10000''\<rparr>
      = Inr (startup_args (EVM_RECEIVING_ADDRESS example_env))"
    by (simp add: example_deps_def startup_args_def)
  have m: "createMiddleware example_deps \<lparr>facilitatorURL = ''http://localhost:4000'',
      accepts = [startup_args (EVM_RECEIVING_ADDRESS example_env)]\<rparr> = Inr ''http://localhost:4000''"
    by (simp add: example_deps_def)
  have p: "(case truthy (PORT example_env) of None \<Rightarrow> Some 4021
      | Some p \<Rightarrow> parseInt example_deps p) = Some 4021"
    by (simp add: example_env_def truthy_def)
  from missing_credential_only_warns [OF a f] x m p
  have "fst (startup example_deps example_env) =
       [Log Warn ''REDPILL_API_KEY not set in environment. The /tee-demo endpoint will not function.'']
     \<and> snd (startup example_deps example_env) =
        Inr \<lparr>routes = [\<lparr>path = ''/weather'', middleware = ''http://localhost:4000'', action = Weather\<rparr>,
                       \<lparr>path = ''/tee-demo'', middleware = ''http://localhost:4000'', action = TeeDemo\<rparr>],
             listening = 4021\<rparr>"
    by auto
  with a f show ?thesis by (simp add: prod_eq_iff)
qed

end
